theory Spec2Isabelle
  imports Main "HOL-Library.AList"
begin

section \<open>Python strings\<close>

text \<open>
  The text a caller passes in (tags, tag names, name patterns) is a Python \<open>str\<close>, a
  sequence of Unicode code points, and is modelled as the list of these code points. What
  \<open>str.strip()\<close>, \<open>str.lower()\<close> and \<open>str.isupper()\<close> do with it is decided by the
  Unicode tables. For the code points below 256 the tables are written out. Beyond, they
  are a parameter: the white-space and upper-case properties of a code point, and the
  lower-casing of a string that holds a code point from 256 up (which is not done code point
  by code point: a capital sigma is lower-cased according to its neighbours).
\<close>

type_synonym ustr = "nat list"

record ucd =
  ucd_isspace :: "nat \<Rightarrow> bool"
  ucd_isupper :: "nat \<Rightarrow> bool"
  ucd_lower :: "nat list \<Rightarrow> nat list"

definition cp :: "char \<Rightarrow> nat" where
  \<comment> \<open>the code point of a character written in the source\<close>
  "cp c = of_char c"

definition codepoints :: "string \<Rightarrow> ustr" where
  "codepoints s = map cp s"

definition latin1_upper :: "nat \<Rightarrow> bool" where
  \<comment> \<open>the upper-case code points below 256: A-Z and the Latin-1 capitals (not the
      multiplication sign)\<close>
  "latin1_upper c = ((65 \<le> c \<and> c \<le> 90) \<or> (192 \<le> c \<and> c \<le> 222 \<and> c \<noteq> 215))"

definition isspace :: "ucd \<Rightarrow> nat \<Rightarrow> bool" where
  \<comment> \<open>\<open>str.isspace\<close> on one code point: the white space stripped by \<open>str.strip()\<close>\<close>
  "isspace u c = (if c < 256 then c \<in> {9, 10, 11, 12, 13, 28, 29, 30, 31, 32, 133, 160}
                  else ucd_isspace u c)"


definition lower_char :: "nat \<Rightarrow> nat" where
  \<comment> \<open>the lower-casing of a code point below 256\<close>
  "lower_char c = (if latin1_upper c then c + 32 else c)"

definition latin1 :: "ustr \<Rightarrow> bool" where
  \<comment> \<open>every code point of the string is below 256\<close>
  "latin1 s = list_all (\<lambda>c. c < 256) s"

definition strip :: "ucd \<Rightarrow> ustr \<Rightarrow> ustr" where
  \<comment> \<open>\<open>s.strip()\<close>\<close>
  "strip u s = rev (dropWhile (isspace u) (rev (dropWhile (isspace u) s)))"

definition lstrip :: "nat \<Rightarrow> ustr \<Rightarrow> ustr" where
  \<comment> \<open>\<open>s.lstrip(c)\<close> for a one-character argument\<close>
  "lstrip c s = dropWhile (\<lambda>d. d = c) s"

definition lower :: "ucd \<Rightarrow> ustr \<Rightarrow> ustr" where
  \<comment> \<open>\<open>s.lower()\<close>\<close>
  "lower u s = (if latin1 s then map lower_char s else ucd_lower u s)"

definition replace :: "nat \<Rightarrow> nat \<Rightarrow> ustr \<Rightarrow> ustr" where
  \<comment> \<open>\<open>s.replace(a, b)\<close> for one-character arguments\<close>
  "replace a b s = map (\<lambda>c. if c = a then b else c) s"

fun join :: "'a list \<Rightarrow> 'a list list \<Rightarrow> 'a list" where
  \<comment> \<open>\<open>sep.join(xs)\<close>\<close>
  "join sep [] = []"
| "join sep [x] = x"
| "join sep (x # y # ys) = x @ sep @ join sep (y # ys)"

section \<open>Tag formatting\<close>

definition format_tags :: "ucd \<Rightarrow> ustr list option \<Rightarrow> ustr list option \<Rightarrow> ustr list" where
  \<comment> \<open>\<open>Gelbooru._format_tags\<close>; \<open>if tags\<close> is false for \<open>None\<close> and for the empty list\<close>
  "format_tags u tags exclude_tags =
     (let tags' = (case tags of
                     None \<Rightarrow> []
                   | Some ts \<Rightarrow> if ts \<noteq> []
                       then map (\<lambda>tag. replace (cp (CHR '' '')) (cp (CHR ''_'')) (lower u (strip u tag))) ts
                       else []);
          exclude_tags' = (case exclude_tags of
                     None \<Rightarrow> []
                   | Some es \<Rightarrow> if es \<noteq> []
                       then map (\<lambda>tag. cp (CHR ''-'') #
                              replace (cp (CHR '' '')) (cp (CHR ''_''))
                                (lower u (lstrip (cp (CHR ''-'')) (strip u tag)))) es
                       else [])
      in tags' @ exclude_tags')"

fun split_on :: "char \<Rightarrow> string \<Rightarrow> string list" where
  \<comment> \<open>\<open>s.split(c)\<close> for a one-character separator: every occurrence separates\<close>
  "split_on c [] = [[]]"
| "split_on c (x # xs) =
     (if x = c then [] # split_on c xs
      else (case split_on c xs of [] \<Rightarrow> [[x]] | w # ws \<Rightarrow> (x # w) # ws))"

fun startswith :: "'a list \<Rightarrow> 'a list \<Rightarrow> bool" where
  \<comment> \<open>\<open>s.startswith(k)\<close>, with the prefix as first argument\<close>
  "startswith [] s = True"
| "startswith (k # ks) [] = False"
| "startswith (k # ks) (c # cs) = (k = c \<and> startswith ks cs)"

fun substring :: "'a list \<Rightarrow> 'a list \<Rightarrow> bool" where
  \<comment> \<open>\<open>k in s\<close> for two strings\<close>
  "substring k [] = (k = [])"
| "substring k (c # cs) = (startswith k (c # cs) \<or> substring k cs)"



section \<open>Parsed XML\<close>

text \<open>
  The values \<open>xmltodict.parse\<close> produces: \<open>None\<close> for an empty element, a string for
  text and attributes, a list for a repeated element, a dict (its items in order) for an
  element with children or attributes. The names and texts of a response are strings over
  the code points below 256.
\<close>

datatype xval = XNone | XStr string | XList "xval list" | XDict "(string \<times> xval) list"

text \<open>
  A value stored in a query argument or interpolated into a message: an integer, a value
  taken from a parsed response or a string written in the source, or text built from what
  the caller passed in.
\<close>

datatype arg = AInt int | AVal xval | AText ustr

text \<open>The Python exceptions the client does not raise itself but lets escape.\<close>

datatype builtin_error =
    ExpatError
  | KeyError string
  | TypeError
  | ValueError
  | AttributeError
  | IndexError

datatype error =
    NotFound arg
      \<comment> \<open>\<open>GelbooruNotFoundException\<close>, with the post id of its message\<close>
  | Malformed
      \<comment> \<open>\<open>GelbooruException("Gelbooru returned a malformed response")\<close>\<close>
  | NonSuccess string
      \<comment> \<open>\<open>GelbooruException("Gelbooru returned a non 200 status code: ...")\<close>,
          with the response body of its message\<close>
  | Builtin builtin_error

definition bindE :: "'e + 'a \<Rightarrow> ('a \<Rightarrow> 'e + 'b) \<Rightarrow> 'e + 'b" where
  "bindE m f = (case m of Inl e \<Rightarrow> Inl e | Inr x \<Rightarrow> f x)"

fun truthy :: "xval \<Rightarrow> bool" where
  \<comment> \<open>the truth value of a parsed value\<close>
  "truthy XNone = False"
| "truthy (XStr s) = (s \<noteq> [])"
| "truthy (XList l) = (l \<noteq> [])"
| "truthy (XDict d) = (d \<noteq> [])"

fun contains :: "string \<Rightarrow> xval \<Rightarrow> builtin_error + bool" where
  \<comment> \<open>\<open>k in v\<close>\<close>
  "contains k (XDict d) = Inr (map_of d k \<noteq> None)"
| "contains k (XStr s) = Inr (substring k s)"
| "contains k (XList l) = Inr (XStr k \<in> set l)"
| "contains k XNone = Inl TypeError"

fun subscript :: "xval \<Rightarrow> string \<Rightarrow> builtin_error + xval" where
  \<comment> \<open>\<open>v[k]\<close> for a string \<open>k\<close>\<close>
  "subscript (XDict d) k = (case map_of d k of None \<Rightarrow> Inl (KeyError k) | Some v \<Rightarrow> Inr v)"
| "subscript v k = Inl TypeError"

definition get_default :: "(string \<times> xval) list \<Rightarrow> string \<Rightarrow> xval" where
  \<comment> \<open>\<open>d.get(k)\<close> on a dict\<close>
  "get_default d k = (case map_of d k of None \<Rightarrow> XNone | Some v \<Rightarrow> v)"

fun iterate :: "xval \<Rightarrow> builtin_error + xval list" where
  \<comment> \<open>the elements a \<open>for\<close> loop over the value visits: a dict gives its keys\<close>
  "iterate (XList l) = Inr l"
| "iterate (XDict d) = Inr (map XStr (remdups (map fst d)))"
| "iterate (XStr s) = Inr (map (\<lambda>c. XStr [c]) s)"
| "iterate XNone = Inl TypeError"

fun map_res :: "('a \<Rightarrow> builtin_error + 'b) \<Rightarrow> 'a list \<Rightarrow> builtin_error + 'b list" where
  \<comment> \<open>a list comprehension whose element expression can raise\<close>
  "map_res f [] = Inr []"
| "map_res f (x # xs) =
     (case f x of
        Inl e \<Rightarrow> Inl e
      | Inr y \<Rightarrow> (case map_res f xs of Inl e \<Rightarrow> Inl e | Inr ys \<Rightarrow> Inr (y # ys)))"

subsection \<open>\<open>int(...)\<close>\<close>

definition isdigit :: "char \<Rightarrow> bool" where
  "isdigit c = (48 \<le> (of_char c :: nat) \<and> (of_char c :: nat) \<le> 57)"

definition digit_value :: "char \<Rightarrow> nat" where
  "digit_value c = (of_char c :: nat) - 48"

fun digits :: "nat \<Rightarrow> string \<Rightarrow> nat option" where
  \<comment> \<open>the rest of a decimal literal after a digit: digits, single underscores between them\<close>
  "digits acc [] = Some acc"
| "digits acc [c] = (if isdigit c then Some (10 * acc + digit_value c) else None)"
| "digits acc (c # d # ds) =
     (if isdigit c then digits (10 * acc + digit_value c) (d # ds)
      else if c = CHR ''_'' \<and> isdigit d then digits (10 * acc + digit_value d) ds
      else None)"

definition unsigned :: "string \<Rightarrow> nat option" where
  "unsigned s = (case s of [] \<Rightarrow> None | c # cs \<Rightarrow> if isdigit c then digits (digit_value c) cs else None)"

definition int_space :: "char \<Rightarrow> bool" where
  \<comment> \<open>the white space \<open>int\<close> accepts around a literal: the ASCII white space and, of the
      other code points below 256, NEL and the no-break space; the separators
      U+001C to U+001F, which \<open>str.strip()\<close> removes, are not among them\<close>
  "int_space c = ((of_char c :: nat) \<in> {9, 10, 11, 12, 13, 32, 133, 160})"

definition max_str_digits :: nat where
  \<comment> \<open>the default of \<open>sys.get_int_max_str_digits()\<close>\<close>
  "max_str_digits = 4300"

definition int_of_str :: "string \<Rightarrow> int option" where
  \<comment> \<open>\<open>int(s)\<close> for a string: white space around, an optional sign, a decimal literal of
      at most \<open>max_str_digits\<close> digits (its leading zeros counted, its underscores not)\<close>
  "int_of_str s =
     (let t = rev (dropWhile int_space (rev (dropWhile int_space s)))
      in if max_str_digits < length (filter isdigit t) then None
         else
           (case t of
              [] \<Rightarrow> None
            | c # cs \<Rightarrow>
                if c = CHR ''+'' then map_option int (unsigned cs)
                else if c = CHR ''-'' then map_option (\<lambda>n. - int n) (unsigned cs)
                else map_option int (unsigned (c # cs))))"

fun py_int :: "xval \<Rightarrow> builtin_error + int" where
  \<comment> \<open>\<open>int(v)\<close> for a parsed value\<close>
  "py_int (XStr s) = (case int_of_str s of None \<Rightarrow> Inl ValueError | Some i \<Rightarrow> Inr i)"
| "py_int v = Inl TypeError"


section \<open>Records, client and world\<close>

record client =
  api_key :: "string option"
  user_id :: "string option"

text \<open>
  Image and comment objects are mutable and refer to each other, so they live in a store
  and are named by their index in it. Tags are immutable values. Every record keeps the
  client it came from (\<open>_gelbooru\<close>).
\<close>

record image_obj =
  img_gelbooru :: client
  img_id :: int
  img_creator_id :: xval
  img_created_at :: xval
  img_file_url :: xval
  img_filename :: string
  img_source :: xval
  img_hash :: xval
  img_height :: int
  img_width :: int
  img_rating :: xval
  img_has_sample :: xval
  img_has_comments :: xval
  img_has_notes :: xval
  img_tags :: "string list"
  img_change :: xval
  img_directory :: xval
  img_comments :: "nat list"

record tag =
  tag_gelbooru :: client
  tag_id :: int
  tag_name :: xval
  tag_count :: int
  tag_ambiguous :: xval

record comment_obj =
  com_gelbooru :: client
  com_post :: "nat option"
  com_id :: int
  com_post_id :: xval
  com_creator :: xval
  com_creator_id :: xval
  com_created_at :: xval
  com_body :: xval

type_synonym url = "(string \<times> arg) list"

text \<open>
  What the client calls and does not define: the Unicode tables, the remote server (its answer to the
  \<open>n\<close>-th request of a run, as status code and body), \<open>xmltodict.parse\<close>
  (\<open>None\<close> is \<open>ExpatError\<close>), \<open>os.path.basename(urlparse(v).path)\<close>, \<open>str(v)\<close>
  of a list or dict, and the random source behind \<open>randint\<close>. A URL is kept as the
  ordered query arguments of the \<open>furl\<close> object.
\<close>

record env =
  unicode :: ucd
  server :: "nat \<Rightarrow> url \<Rightarrow> int \<times> string"
  xml_parse :: "string \<Rightarrow> (string \<times> xval) list option"
  url_filename :: "xval \<Rightarrow> builtin_error + string"
  container_str :: "xval \<Rightarrow> string"
  entropy :: "nat \<Rightarrow> nat"

record world =
  calls :: nat
  draws :: nat
  image_heap :: "image_obj list"
  comment_heap :: "comment_obj list"

type_synonym 'a io = "world \<Rightarrow> (error + 'a) \<times> world"

fun for_each :: "('a \<Rightarrow> 'b io) \<Rightarrow> 'a list \<Rightarrow> 'b list io" where
  \<comment> \<open>a list comprehension whose element expression allocates and can raise\<close>
  "for_each f [] w = (Inr [], w)"
| "for_each f (x # xs) w =
     (case f x w of
        (Inl e, w1) \<Rightarrow> (Inl e, w1)
      | (Inr y, w1) \<Rightarrow>
          (case for_each f xs w1 of
             (Inl e, w2) \<Rightarrow> (Inl e, w2)
           | (Inr ys, w2) \<Rightarrow> (Inr (y # ys), w2)))"

definition py_str :: "env \<Rightarrow> xval \<Rightarrow> string" where
  \<comment> \<open>\<open>str(v)\<close>\<close>
  "py_str env v = (case v of XNone \<Rightarrow> ''None'' | XStr s \<Rightarrow> s | _ \<Rightarrow> container_str env v)"

definition randint :: "env \<Rightarrow> int \<Rightarrow> int \<Rightarrow> int io" where
  \<comment> \<open>\<open>random.randint(a, b)\<close>: some integer of \<open>[a, b]\<close>, \<open>ValueError\<close> on an empty range\<close>
  "randint env a b w =
     (if b < a then (Inl (Builtin ValueError), w)
      else (Inr (a + int (entropy env (draws w)) mod (b - a + 1)), w\<lparr>draws := draws w + 1\<rparr>))"

subsection \<open>Constructors\<close>

definition GelbooruImage :: "env \<Rightarrow> client \<Rightarrow> xval \<Rightarrow> builtin_error + image_obj" where
  \<comment> \<open>\<open>GelbooruImage.__init__\<close>: \<open>payload.get\<close> exists on a dict only\<close>
  "GelbooruImage env gelbooru payload =
     (case payload of
        XDict d \<Rightarrow>
          bindE (py_int (get_default d ''id'')) (\<lambda>i.
          bindE (url_filename env (get_default d ''file_url'')) (\<lambda>filename.
          bindE (py_int (get_default d ''height'')) (\<lambda>height.
          bindE (py_int (get_default d ''width'')) (\<lambda>width.
          Inr \<lparr> img_gelbooru = gelbooru,
                img_id = i,
                img_creator_id = get_default d ''creator_id'',
                img_created_at = get_default d ''created_at'',
                img_file_url = get_default d ''file_url'',
                img_filename = filename,
                img_source = (if truthy (get_default d ''source'') then get_default d ''source'' else XNone),
                img_hash = get_default d ''hash'',
                img_height = height,
                img_width = width,
                img_rating = get_default d ''rating'',
                img_has_sample = get_default d ''sample'',
                img_has_comments = get_default d ''has_comments'',
                img_has_notes = get_default d ''has_notes'',
                img_tags = split_on (CHR '' '') (py_str env (get_default d ''tags'')),
                img_change = get_default d ''change'',
                img_directory = get_default d ''directory'',
                img_comments = [] \<rparr>))))
      | _ \<Rightarrow> Inl AttributeError)"

definition GelbooruTag :: "client \<Rightarrow> xval \<Rightarrow> builtin_error + tag" where
  \<comment> \<open>\<open>GelbooruTag.__init__\<close>; \<open>payload.get('@count', 0)\<close> is the integer 0 when the key is absent\<close>
  "GelbooruTag gelbooru payload =
     (case payload of
        XDict d \<Rightarrow>
          bindE (py_int (get_default d ''id'')) (\<lambda>i.
          bindE (case map_of d ''@count'' of None \<Rightarrow> Inr 0 | Some v \<Rightarrow> py_int v) (\<lambda>count.
          Inr \<lparr> tag_gelbooru = gelbooru,
                tag_id = i,
                tag_name = get_default d ''name'',
                tag_count = count,
                tag_ambiguous = get_default d ''ambiguous'' \<rparr>))
      | _ \<Rightarrow> Inl AttributeError)"

definition GelbooruComment :: "client \<Rightarrow> nat option \<Rightarrow> xval \<Rightarrow> builtin_error + comment_obj" where
  \<comment> \<open>\<open>GelbooruComment.__init__\<close>\<close>
  "GelbooruComment gelbooru post payload =
     (case payload of
        XDict d \<Rightarrow>
          bindE (py_int (get_default d ''id'')) (\<lambda>i.
          Inr \<lparr> com_gelbooru = gelbooru,
                com_post = post,
                com_id = i,
                com_post_id = get_default d ''post_id'',
                com_creator = get_default d ''creator'',
                com_creator_id = get_default d ''creator_id'',
                com_created_at = get_default d ''created_at'',
                com_body = get_default d ''body'' \<rparr>)
      | _ \<Rightarrow> Inl AttributeError)"

definition new_image :: "env \<Rightarrow> client \<Rightarrow> xval \<Rightarrow> nat io" where
  \<comment> \<open>\<open>GelbooruImage(payload, self)\<close>: the new object is stored at the next index\<close>
  "new_image env gelbooru payload w =
     (case GelbooruImage env gelbooru payload of
        Inl e \<Rightarrow> (Inl (Builtin e), w)
      | Inr obj \<Rightarrow> (Inr (length (image_heap w)), w\<lparr>image_heap := image_heap w @ [obj]\<rparr>))"

definition new_comment :: "client \<Rightarrow> nat option \<Rightarrow> xval \<Rightarrow> nat io" where
  \<comment> \<open>\<open>GelbooruComment(payload, self, post)\<close>\<close>
  "new_comment gelbooru post payload w =
     (case GelbooruComment gelbooru post payload of
        Inl e \<Rightarrow> (Inl (Builtin e), w)
      | Inr obj \<Rightarrow> (Inr (length (comment_heap w)), w\<lparr>comment_heap := comment_heap w @ [obj]\<rparr>))"


section \<open>The client\<close>

definition set_arg :: "string \<Rightarrow> arg \<Rightarrow> url \<Rightarrow> url" where
  \<comment> \<open>\<open>endpoint.args[k] = v\<close>\<close>
  "set_arg k v u = AList.update k v u"

definition endpoint :: "client \<Rightarrow> string \<Rightarrow> url" where
  \<comment> \<open>\<open>Gelbooru._endpoint\<close>\<close>
  "endpoint self s =
     (let e0 = set_arg ''q'' (AVal (XStr ''index''))
                 (set_arg ''s'' (AVal (XStr s))
                   (set_arg ''page'' (AVal (XStr ''dapi'')) []));
          e1 = (case api_key self of
                  None \<Rightarrow> e0
                | Some k \<Rightarrow> if k \<noteq> [] then set_arg ''api_key'' (AVal (XStr k)) e0 else e0)
      in (case user_id self of
            None \<Rightarrow> e1
          | Some u \<Rightarrow> if u \<noteq> [] then set_arg ''user_id'' (AVal (XStr u)) e1 else e1))"

definition fetch :: "env \<Rightarrow> url \<Rightarrow> world \<Rightarrow> (int \<times> string) \<times> world" where
  \<comment> \<open>\<open>Gelbooru._fetch\<close>: one HTTP GET\<close>
  "fetch env u w = (server env (calls w) u, w\<lparr>calls := calls w + 1\<rparr>)"

definition request :: "env \<Rightarrow> url \<Rightarrow> string io" where
  \<comment> \<open>\<open>Gelbooru._request\<close>\<close>
  "request env u w =
     (case fetch env u w of
        ((status_code, response), w1) \<Rightarrow>
          if status_code \<noteq> 200 \<and> status_code \<noteq> 201
          then (Inl (NonSuccess response), w1)
          else (Inr response, w1))"

subsection \<open>\<open>get_post\<close>\<close>

definition get_post_endpoint :: "client \<Rightarrow> arg \<Rightarrow> url" where
  "get_post_endpoint self post_id = set_arg ''id'' post_id (endpoint self ''post'')"

definition get_post :: "env \<Rightarrow> client \<Rightarrow> arg \<Rightarrow> nat io" where
  "get_post env self post_id w =
     (case request env (get_post_endpoint self post_id) w of
        (Inl e, w1) \<Rightarrow> (Inl e, w1)
      | (Inr body, w1) \<Rightarrow>
          (case xml_parse env body of
             None \<Rightarrow> (Inl (Builtin ExpatError), w1)
           | Some payload \<Rightarrow>
               (case map_of payload ''posts'' of
                  None \<Rightarrow> (Inl (NotFound post_id), w1)
                | Some posts \<Rightarrow>
                    (case subscript posts ''post'' of
                       Inl e \<Rightarrow> (Inl (Builtin e), w1)
                     | Inr post \<Rightarrow> new_image env self post w1))))"

subsection \<open>\<open>search_posts\<close>\<close>

datatype posts_result = Images "nat list" | Image nat

definition search_posts_endpoint ::
  "ucd \<Rightarrow> client \<Rightarrow> ustr list option \<Rightarrow> ustr list option \<Rightarrow> int \<Rightarrow> int \<Rightarrow> url" where
  "search_posts_endpoint u self tags exclude_tags limit page =
     (let e = set_arg ''pid'' (AInt page) (set_arg ''limit'' (AInt limit) (endpoint self ''post''));
          tags' = format_tags u tags exclude_tags
      in if tags' \<noteq> [] then set_arg ''tags'' (AText (join [cp (CHR '' '')] tags')) e else e)"

definition search_posts ::
  "env \<Rightarrow> client \<Rightarrow> ustr list option \<Rightarrow> ustr list option \<Rightarrow> int \<Rightarrow> int \<Rightarrow> posts_result io" where
  "search_posts env self tags exclude_tags limit page w =
     (case request env (search_posts_endpoint (unicode env) self tags exclude_tags limit page) w of
        (Inl e, w1) \<Rightarrow> (Inl e, w1)
      | (Inr body, w1) \<Rightarrow>
          (case xml_parse env body of
             None \<Rightarrow> (Inl Malformed, w1)
           | Some payload \<Rightarrow>
               (case map_of payload ''posts'' of
                  None \<Rightarrow> (Inr (Images []), w1)
                | Some posts \<Rightarrow>
                    (case contains ''post'' posts of
                       Inl e \<Rightarrow> (Inl (Builtin e), w1)
                     | Inr present \<Rightarrow>
                         if \<not> present then (Inr (Images []), w1)
                         else
                           (case subscript posts ''post'' of
                              Inl e \<Rightarrow> (Inl (Builtin e), w1)
                            | Inr post \<Rightarrow>
                                (case (case post of
                                         XList ps \<Rightarrow> for_each (new_image env self) ps w1
                                       | _ \<Rightarrow> for_each (new_image env self) [post] w1) of
                                   (Inl e, w2) \<Rightarrow> (Inl e, w2)
                                 | (Inr result, w2) \<Rightarrow>
                                     if limit = 1
                                     then (case result of
                                             [] \<Rightarrow> (Inl (Builtin IndexError), w2)
                                           | r # _ \<Rightarrow> (Inr (Image r), w2))
                                     else (Inr (Images result), w2)))))))"

subsection \<open>\<open>random_post\<close>\<close>

definition random_post_endpoint ::
  "ucd \<Rightarrow> client \<Rightarrow> ustr list option \<Rightarrow> ustr list option \<Rightarrow> url" where
  "random_post_endpoint u self tags exclude_tags =
     (let e = set_arg ''limit'' (AInt 1) (endpoint self ''post'');
          tags' = format_tags u tags exclude_tags
      in if tags' \<noteq> [] then set_arg ''tags'' (AText (join [cp (CHR '' '')] tags')) e else e)"

definition post_count :: "(string \<times> xval) list \<Rightarrow> builtin_error + int" where
  \<comment> \<open>\<open>int(payload['posts']['@count'])\<close>\<close>
  "post_count payload =
     bindE (subscript (XDict payload) ''posts'') (\<lambda>posts.
     bindE (subscript posts ''@count'') py_int)"

definition random_post ::
  "env \<Rightarrow> client \<Rightarrow> ustr list option \<Rightarrow> ustr list option \<Rightarrow> posts_result option io" where
  \<comment> \<open>the formatted tags are passed on as \<open>tags\<close>, the exclusions as they came\<close>
  "random_post env self tags exclude_tags w =
     (case request env (random_post_endpoint (unicode env) self tags exclude_tags) w of
        (Inl e, w1) \<Rightarrow> (Inl e, w1)
      | (Inr body, w1) \<Rightarrow>
          (case xml_parse env body of
             None \<Rightarrow> (Inl Malformed, w1)
           | Some payload \<Rightarrow>
               (case post_count payload of
                  Inl e \<Rightarrow> (Inl (Builtin e), w1)
                | Inr count \<Rightarrow>
                    if count = 0 then (Inr None, w1)
                    else
                      (case randint env 0 (min count 20000) w1 of
                         (Inl e, w2) \<Rightarrow> (Inl e, w2)
                       | (Inr offset, w2) \<Rightarrow>
                           (case search_posts env self (Some (format_tags (unicode env) tags exclude_tags))
                                   exclude_tags 1 offset w2 of
                              (Inl e, w3) \<Rightarrow> (Inl e, w3)
                            | (Inr r, w3) \<Rightarrow> (Inr (Some r), w3))))))"

subsection \<open>\<open>tag_list\<close>\<close>

datatype name_arg = NoName | Name ustr | Names "ustr list"

datatype tags_result = Tags "tag list" | Tag tag

definition tag_list_endpoint ::
  "ucd \<Rightarrow> client \<Rightarrow> name_arg \<Rightarrow> ustr option \<Rightarrow> int \<Rightarrow> string \<Rightarrow> string \<Rightarrow> url" where
  "tag_list_endpoint u self name name_pattern limit sort_by sort_order =
     (let fmt = (\<lambda>n. replace (cp (CHR '' '')) (cp (CHR ''_'')) (lower u (strip u n)));
          e = set_arg ''limit'' (AInt limit) (endpoint self ''tag'');
          pat = (case name_pattern of
                   None \<Rightarrow> e
                 | Some p \<Rightarrow> if p \<noteq> [] then set_arg ''name_pattern'' (AText (fmt p)) e else e);
          e1 = (case name of
                  NoName \<Rightarrow> pat
                | Name n \<Rightarrow> if n \<noteq> [] then set_arg ''name'' (AText (fmt n)) e else pat
                | Names ns \<Rightarrow>
                    if ns \<noteq> [] then set_arg ''names'' (AText (join [cp (CHR '' '')] (map fmt ns))) e
                    else pat)
      in set_arg ''order'' (AVal (XStr sort_order)) (set_arg ''orderby'' (AVal (XStr sort_by)) e1))"

definition tag_list ::
  "env \<Rightarrow> client \<Rightarrow> name_arg \<Rightarrow> ustr option \<Rightarrow> int \<Rightarrow> string \<Rightarrow> string \<Rightarrow> tags_result io" where
  "tag_list env self name name_pattern limit sort_by sort_order w =
     (case request env (tag_list_endpoint (unicode env) self name name_pattern limit sort_by sort_order) w of
        (Inl e, w1) \<Rightarrow> (Inl e, w1)
      | (Inr body, w1) \<Rightarrow>
          (case xml_parse env body of
             None \<Rightarrow> (Inl (Builtin ExpatError), w1)
           | Some payload \<Rightarrow>
               (case map_of payload ''tags'' of
                  None \<Rightarrow> (Inr (Tags []), w1)
                | Some tags \<Rightarrow>
                    (case subscript tags ''tag'' of
                       Inl e \<Rightarrow> (Inl (Builtin e), w1)
                     | Inr (XList ts) \<Rightarrow>
                         (case map_res (GelbooruTag self) ts of
                            Inl e \<Rightarrow> (Inl (Builtin e), w1)
                          | Inr r \<Rightarrow> (Inr (Tags r), w1))
                     | Inr t \<Rightarrow>
                         (case GelbooruTag self t of
                            Inl e \<Rightarrow> (Inl (Builtin e), w1)
                          | Inr r \<Rightarrow> (Inr (Tag r), w1))))))"

subsection \<open>\<open>get_comments\<close>\<close>

datatype post_arg = PostId int | PostImage nat

definition get_comments_endpoint :: "client \<Rightarrow> post_arg \<Rightarrow> world \<Rightarrow> url" where
  \<comment> \<open>\<open>int(post)\<close> of an Image is its id\<close>
  "get_comments_endpoint self post w =
     set_arg ''post_id''
       (AInt (case post of PostId i \<Rightarrow> i | PostImage r \<Rightarrow> img_id (image_heap w ! r)))
       (endpoint self ''comment'')"

definition get_comments :: "env \<Rightarrow> client \<Rightarrow> post_arg \<Rightarrow> nat list io" where
  "get_comments env self post w =
     (case request env (get_comments_endpoint self post w) w of
        (Inl e, w1) \<Rightarrow> (Inl e, w1)
      | (Inr body, w1) \<Rightarrow>
          (case xml_parse env body of
             None \<Rightarrow> (Inl (Builtin ExpatError), w1)
           | Some payload \<Rightarrow>
               (case subscript (XDict payload) ''comments'' of
                  Inl e \<Rightarrow> (Inl (Builtin e), w1)
                | Inr comments \<Rightarrow>
                    (case contains ''comment'' comments of
                       Inl e \<Rightarrow> (Inl (Builtin e), w1)
                     | Inr present \<Rightarrow>
                         if \<not> present then (Inr [], w1)
                         else
                           (let post' = (case post of PostId i \<Rightarrow> None | PostImage r \<Rightarrow> Some r)
                            in (case subscript comments ''comment'' of
                                  Inl e \<Rightarrow> (Inl (Builtin e), w1)
                                | Inr (XList cs) \<Rightarrow> for_each (new_comment self post') cs w1
                                | Inr c \<Rightarrow> for_each (new_comment self post') [c] w1))))))"

subsection \<open>\<open>is_deleted\<close>\<close>

definition is_deleted_endpoint :: "client \<Rightarrow> url" where
  "is_deleted_endpoint self = set_arg ''deleted'' (AVal (XStr ''show'')) (endpoint self ''post'')"

definition is_deleted :: "env \<Rightarrow> client \<Rightarrow> string \<Rightarrow> bool io" where
  "is_deleted env self image_md5 w =
     (case request env (is_deleted_endpoint self) w of
        (Inl e, w1) \<Rightarrow> (Inl e, w1)
      | (Inr body, w1) \<Rightarrow>
          (case xml_parse env body of
             None \<Rightarrow> (Inl (Builtin ExpatError), w1)
           | Some payload \<Rightarrow>
               (case bindE (subscript (XDict payload) ''posts'') (\<lambda>posts.
                     bindE (subscript posts ''post'') (\<lambda>post.
                     bindE (iterate post) (map_res (\<lambda>p. subscript p ''@md5'')))) of
                  Inl e \<Rightarrow> (Inl (Builtin e), w1)
                | Inr deleted_md5s \<Rightarrow> (Inr (XStr image_md5 \<in> set deleted_md5s), w1))))"

subsection \<open>Lazy references of the records\<close>

definition GelbooruImage_get_comments :: "env \<Rightarrow> nat \<Rightarrow> nat list io" where
  \<comment> \<open>\<open>GelbooruImage.get_comments\<close> of the image stored at \<open>r\<close>\<close>
  "GelbooruImage_get_comments env r w =
     (let self = image_heap w ! r in
      if \<not> truthy (img_has_comments self) then (Inr [], w)
      else if img_comments self \<noteq> [] then (Inr (img_comments self), w)
      else
        (case get_comments env (img_gelbooru self) (PostImage r) w of
           (Inl e, w1) \<Rightarrow> (Inl e, w1)
         | (Inr cs, w1) \<Rightarrow>
             (Inr cs, w1\<lparr>image_heap := (image_heap w1)[r := (image_heap w1 ! r)\<lparr>img_comments := cs\<rparr>]\<rparr>)))"

definition GelbooruComment_get_post :: "env \<Rightarrow> nat \<Rightarrow> nat io" where
  \<comment> \<open>\<open>GelbooruComment.get_post\<close> of the comment stored at \<open>c\<close>; an Image object is always true\<close>
  "GelbooruComment_get_post env c w =
     (let self = comment_heap w ! c in
      case com_post self of
        Some r \<Rightarrow> (Inr r, w)
      | None \<Rightarrow>
          (case get_post env (com_gelbooru self) (AVal (com_post_id self)) w of
             (Inl e, w1) \<Rightarrow> (Inl e, w1)
           | (Inr r, w1) \<Rightarrow>
               (Inr r, w1\<lparr>comment_heap := (comment_heap w1)[c := (comment_heap w1 ! c)\<lparr>com_post := Some r\<rparr>]\<rparr>)))"


section \<open>The normalised sequence\<close>

definition as_list :: "xval \<Rightarrow> xval list" where
  \<comment> \<open>the elements the normalising operations build records from: those of a list, or
      the value itself when it is not a list\<close>
  "as_list v = (case v of XList vs \<Rightarrow> vs | _ \<Rightarrow> [v])"

section \<open>Example runs\<close>

text \<open>
  A server that answers the \<open>n\<close>-th request with the \<open>n\<close>-th entry of a script (and
  with status 500 once the script is used up), and a parser given as a table from bodies
  to parsed documents. They supply the concrete runs of the examples below.
\<close>

definition unicode_excerpt :: ucd where
  \<comment> \<open>the rows of the Unicode tables the examples use: EM SPACE (U+2003) is white
      space; GREEK CAPITAL LETTER ALPHA (U+0391) is upper-case and lower-cases to U+03B1;
      GREEK UPSILON WITH HOOK SYMBOL (U+03D2) is upper-case and is its own lower-casing\<close>
  "unicode_excerpt =
     \<lparr> ucd_isspace = (\<lambda>c. c = 8195),
       ucd_isupper = (\<lambda>c. c = 913 \<or> c = 978),
       ucd_lower = map (\<lambda>c. if c = 913 then 945 else lower_char c) \<rparr>"

definition scripted :: "(int \<times> string) list \<Rightarrow> (string \<times> (string \<times> xval) list) list \<Rightarrow> env" where
  "scripted replies docs =
     \<lparr> unicode = unicode_excerpt,
       server = (\<lambda>n u. if n < length replies then replies ! n else (500, [])),
       xml_parse = map_of docs,
       url_filename = (\<lambda>v. Inr []),
       container_str = (\<lambda>v. []),
       entropy = (\<lambda>n. 0) \<rparr>"

definition fresh :: world where
  "fresh = \<lparr> calls = 0, draws = 0, image_heap = [], comment_heap = [] \<rparr>"

definition anonymous :: client where
  "anonymous = \<lparr> api_key = None, user_id = None \<rparr>"

definition post7 :: xval where
  \<comment> \<open>a parsed \<open>post\<close> element\<close>
  "post7 = XDict [(''id'', XStr ''7''), (''file_url'', XStr ''https://img.example/a.png''),
                  (''height'', XStr ''600''), (''width'', XStr ''800''),
                  (''has_comments'', XStr ''true''), (''tags'', XStr ''cat dog'')]"

definition image7 :: image_obj where
  \<comment> \<open>the Image built from \<open>post7\<close> by the anonymous client\<close>
  "image7 =
     \<lparr> img_gelbooru = anonymous,
       img_id = 7,
       img_creator_id = XNone,
       img_created_at = XNone,
       img_file_url = XStr ''https://img.example/a.png'',
       img_filename = [],
       img_source = XNone,
       img_hash = XNone,
       img_height = 600,
       img_width = 800,
       img_rating = XNone,
       img_has_sample = XNone,
       img_has_comments = XStr ''true'',
       img_has_notes = XNone,
       img_tags = [''cat'', ''dog''],
       img_change = XNone,
       img_directory = XNone,
       img_comments = [] \<rparr>"

definition comment5 :: xval where
  \<comment> \<open>a parsed \<open>comment\<close> element\<close>
  "comment5 = XDict [(''id'', XStr ''5''), (''post_id'', XStr ''7''), (''body'', XStr ''nice'')]"

definition comment5_obj :: "nat option \<Rightarrow> comment_obj" where
  \<comment> \<open>the Comment built from \<open>comment5\<close> by the anonymous client, with its backreference\<close>
  "comment5_obj post =
     \<lparr> com_gelbooru = anonymous,
       com_post = post,
       com_id = 5,
       com_post_id = XStr ''7'',
       com_creator = XNone,
       com_creator_id = XNone,
       com_created_at = XNone,
       com_body = XStr ''nice'' \<rparr>"

section \<open>Properties of tag formatting\<close>















section \<open>Transport errors\<close>

lemma request_result:
  "server env (calls w) u = (st, body) \<Longrightarrow>
   request env u w =
     (if st = 200 \<or> st = 201 then Inr body else Inl (NonSuccess body), w\<lparr>calls := calls w + 1\<rparr>)"
  by (simp add: request_def fetch_def)

text \<open>
  C9, as stated, fails for the HTTP success statuses other than 200 and 201: a response
  with status 202 makes \<open>_request\<close>, and with it every operation, raise the exception
  instead of returning the body.
\<close>

theorem status_202_raises:
  "request (scripted [(202, ''queued'')] []) [] fresh
     = (Inl (NonSuccess ''queued''), fresh\<lparr>calls := 1\<rparr>)
   \<and> search_posts (scripted [(202, ''queued'')] []) anonymous None None 100 0 fresh
     = (Inl (NonSuccess ''queued''), fresh\<lparr>calls := 1\<rparr>)"
  by (simp add: search_posts_def request_def fetch_def scripted_def fresh_def)

text \<open>
  C9, amended. \<open>_request\<close> returns the body unchanged when the status code is 200 or 201
  and raises the exception carrying the body for every other status code. Every operation
  whose request is answered with a status other than 200 and 201 raises that exception,
  with the body, after this one request and before anything is parsed.
\<close>

theorem non_success_raises:
  "(server env (calls w) u = (st, body) \<longrightarrow>
      request env u w =
        (if st = 200 \<or> st = 201 then Inr body else Inl (NonSuccess body),
         w\<lparr>calls := calls w + 1\<rparr>))
   \<and> (st \<noteq> 200 \<and> st \<noteq> 201 \<longrightarrow>
        (server env (calls w) (get_post_endpoint self post_id) = (st, body) \<longrightarrow>
           get_post env self post_id w = (Inl (NonSuccess body), w\<lparr>calls := calls w + 1\<rparr>))
      \<and> (server env (calls w) (random_post_endpoint (unicode env) self tags exclude_tags) = (st, body) \<longrightarrow>
           random_post env self tags exclude_tags w =
             (Inl (NonSuccess body), w\<lparr>calls := calls w + 1\<rparr>))
      \<and> (server env (calls w) (search_posts_endpoint (unicode env) self tags exclude_tags limit page) = (st, body) \<longrightarrow>
           search_posts env self tags exclude_tags limit page w =
             (Inl (NonSuccess body), w\<lparr>calls := calls w + 1\<rparr>))
      \<and> (server env (calls w) (tag_list_endpoint (unicode env) self name name_pattern limit sort_by sort_order)
             = (st, body) \<longrightarrow>
           tag_list env self name name_pattern limit sort_by sort_order w =
             (Inl (NonSuccess body), w\<lparr>calls := calls w + 1\<rparr>))
      \<and> (server env (calls w) (get_comments_endpoint self post w) = (st, body) \<longrightarrow>
           get_comments env self post w = (Inl (NonSuccess body), w\<lparr>calls := calls w + 1\<rparr>))
      \<and> (server env (calls w) (is_deleted_endpoint self) = (st, body) \<longrightarrow>
           is_deleted env self hash w = (Inl (NonSuccess body), w\<lparr>calls := calls w + 1\<rparr>)))"
proof -
  have r: "request env u w =
        (if st = 200 \<or> st = 201 then Inr body else Inl (NonSuccess body), w\<lparr>calls := calls w + 1\<rparr>)"
    if "server env (calls w) u = (st, body)" for u
    using that by (rule request_result)
  have gp: "get_post env self post_id w = (Inl (NonSuccess body), w\<lparr>calls := calls w + 1\<rparr>)"
    if "st \<noteq> 200" "st \<noteq> 201" "server env (calls w) (get_post_endpoint self post_id) = (st, body)"
    using that by (simp add: get_post_def r)
  have rp: "random_post env self tags exclude_tags w = (Inl (NonSuccess body), w\<lparr>calls := calls w + 1\<rparr>)"
    if "st \<noteq> 200" "st \<noteq> 201" "server env (calls w) (random_post_endpoint (unicode env) self tags exclude_tags) = (st, body)"
    using that by (simp add: random_post_def r)
  have sp: "search_posts env self tags exclude_tags limit page w = (Inl (NonSuccess body), w\<lparr>calls := calls w + 1\<rparr>)"
    if "st \<noteq> 200" "st \<noteq> 201"
       "server env (calls w) (search_posts_endpoint (unicode env) self tags exclude_tags limit page) = (st, body)"
    using that by (simp add: search_posts_def r)
  have tl: "tag_list env self name name_pattern limit sort_by sort_order w =
             (Inl (NonSuccess body), w\<lparr>calls := calls w + 1\<rparr>)"
    if "st \<noteq> 200" "st \<noteq> 201"
       "server env (calls w) (tag_list_endpoint (unicode env) self name name_pattern limit sort_by sort_order) = (st, body)"
    using that by (simp add: tag_list_def r)
  have gc: "get_comments env self post w = (Inl (NonSuccess body), w\<lparr>calls := calls w + 1\<rparr>)"
    if "st \<noteq> 200" "st \<noteq> 201" "server env (calls w) (get_comments_endpoint self post w) = (st, body)"
    using that by (simp add: get_comments_def r)
  have d: "is_deleted env self hash w = (Inl (NonSuccess body), w\<lparr>calls := calls w + 1\<rparr>)"
    if "st \<noteq> 200" "st \<noteq> 201" "server env (calls w) (is_deleted_endpoint self) = (st, body)"
    using that by (simp add: is_deleted_def r)
  from r gp rp sp tl gc d show ?thesis by blast
qed

theorem non_success_raises_witness:
  "request (scripted [(404, ''gone'')] []) [] fresh = (Inl (NonSuccess ''gone''), fresh\<lparr>calls := 1\<rparr>)
   \<and> get_post (scripted [(404, ''gone'')] []) anonymous (AInt 7) fresh
       = (Inl (NonSuccess ''gone''), fresh\<lparr>calls := 1\<rparr>)
   \<and> random_post (scripted [(404, ''gone'')] []) anonymous None None fresh
       = (Inl (NonSuccess ''gone''), fresh\<lparr>calls := 1\<rparr>)
   \<and> search_posts (scripted [(404, ''gone'')] []) anonymous None None 100 0 fresh
       = (Inl (NonSuccess ''gone''), fresh\<lparr>calls := 1\<rparr>)
   \<and> tag_list (scripted [(404, ''gone'')] []) anonymous NoName None 100 ''count'' ''DESC'' fresh
       = (Inl (NonSuccess ''gone''), fresh\<lparr>calls := 1\<rparr>)
   \<and> get_comments (scripted [(404, ''gone'')] []) anonymous (PostId 7) fresh
       = (Inl (NonSuccess ''gone''), fresh\<lparr>calls := 1\<rparr>)
   \<and> is_deleted (scripted [(404, ''gone'')] []) anonymous ''abc'' fresh
       = (Inl (NonSuccess ''gone''), fresh\<lparr>calls := 1\<rparr>)"
  using non_success_raises [where env = "scripted [(404, ''gone'')] []" and w = fresh and u = "[]"
      and st = 404 and body = "''gone''" and self = anonymous and post_id = "AInt 7"
      and tags = None and exclude_tags = None and limit = 100 and page = 0 and name = NoName
      and name_pattern = None and sort_by = "''count''" and sort_order = "''DESC''"
      and post = "PostId 7" and hash = "''abc''"]
  by (simp add: scripted_def fresh_def)

section \<open>Malformed responses\<close>


lemma new_comment_builtin: "new_comment self post p w = (Inl e, w') \<Longrightarrow> \<exists>b. e = Builtin b"
  by (auto simp: new_comment_def split: sum.splits)



lemma as_list_case:
  "(case v of XList ps \<Rightarrow> for_each f ps w | _ \<Rightarrow> for_each f [v] w) = for_each f (as_list v) w"
  by (cases v) (simp_all add: as_list_def)

lemma search_posts_parsed:
  assumes "server env (calls w) (search_posts_endpoint (unicode env) self tags exclude_tags limit page) = (st, body)"
    and "st = 200 \<or> st = 201"
    and "xml_parse env body = Some payload"
  shows "search_posts env self tags exclude_tags limit page w =
     (case map_of payload ''posts'' of
        None \<Rightarrow> (Inr (Images []), w\<lparr>calls := Suc (calls w)\<rparr>)
      | Some posts \<Rightarrow>
          (case contains ''post'' posts of
             Inl e \<Rightarrow> (Inl (Builtin e), w\<lparr>calls := Suc (calls w)\<rparr>)
           | Inr present \<Rightarrow>
               if \<not> present then (Inr (Images []), w\<lparr>calls := Suc (calls w)\<rparr>)
               else
                 (case subscript posts ''post'' of
                    Inl e \<Rightarrow> (Inl (Builtin e), w\<lparr>calls := Suc (calls w)\<rparr>)
                  | Inr post \<Rightarrow>
                      (case for_each (new_image env self) (as_list post) (w\<lparr>calls := Suc (calls w)\<rparr>) of
                         (Inl e, w2) \<Rightarrow> (Inl e, w2)
                       | (Inr result, w2) \<Rightarrow>
                           if limit = 1
                           then (case result of
                                   [] \<Rightarrow> (Inl (Builtin IndexError), w2)
                                 | r # _ \<Rightarrow> (Inr (Image r), w2))
                           else (Inr (Images result), w2)))))"
  using assms unfolding search_posts_def as_list_case
  by (simp add: request_result)



lemma random_post_parsed:
  assumes "server env (calls w) (random_post_endpoint (unicode env) self tags exclude_tags) = (st, body)"
    and "st = 200 \<or> st = 201"
    and "xml_parse env body = Some payload"
  shows "random_post env self tags exclude_tags w =
     (case post_count payload of
        Inl e \<Rightarrow> (Inl (Builtin e), w\<lparr>calls := Suc (calls w)\<rparr>)
      | Inr count \<Rightarrow>
          if count = 0 then (Inr None, w\<lparr>calls := Suc (calls w)\<rparr>)
          else
            (case randint env 0 (min count 20000) (w\<lparr>calls := Suc (calls w)\<rparr>) of
               (Inl e, w2) \<Rightarrow> (Inl e, w2)
             | (Inr offset, w2) \<Rightarrow>
                 (case search_posts env self (Some (format_tags (unicode env) tags exclude_tags))
                         exclude_tags 1 offset w2 of
                    (Inl e, w3) \<Rightarrow> (Inl e, w3)
                  | (Inr r, w3) \<Rightarrow> (Inr (Some r), w3))))"
  using assms unfolding random_post_def
  by (simp add: request_result)

lemma randint_result:
  "randint env a b w =
     (if b < a then (Inl (Builtin ValueError), w)
      else (Inr (a + int (entropy env (draws w)) mod (b - a + 1)), w\<lparr>draws := Suc (draws w)\<rparr>))"
  by (simp add: randint_def)




section \<open>Responses without results\<close>

lemma get_post_parsed:
  assumes "server env (calls w) (get_post_endpoint self post_id) = (st, body)"
    and "st = 200 \<or> st = 201"
    and "xml_parse env body = Some payload"
  shows "get_post env self post_id w =
     (case map_of payload ''posts'' of
        None \<Rightarrow> (Inl (NotFound post_id), w\<lparr>calls := Suc (calls w)\<rparr>)
      | Some posts \<Rightarrow>
          (case subscript posts ''post'' of
             Inl e \<Rightarrow> (Inl (Builtin e), w\<lparr>calls := Suc (calls w)\<rparr>)
           | Inr post \<Rightarrow> new_image env self post (w\<lparr>calls := Suc (calls w)\<rparr>)))"
  using assms unfolding get_post_def
  by (simp add: request_result)

lemma tag_list_parsed:
  assumes "server env (calls w) (tag_list_endpoint (unicode env) self name name_pattern limit sort_by sort_order)
             = (st, body)"
    and "st = 200 \<or> st = 201"
    and "xml_parse env body = Some payload"
  shows "tag_list env self name name_pattern limit sort_by sort_order w =
     (case map_of payload ''tags'' of
        None \<Rightarrow> (Inr (Tags []), w\<lparr>calls := Suc (calls w)\<rparr>)
      | Some tags \<Rightarrow>
          (case subscript tags ''tag'' of
             Inl e \<Rightarrow> (Inl (Builtin e), w\<lparr>calls := Suc (calls w)\<rparr>)
           | Inr (XList ts) \<Rightarrow>
               (case map_res (GelbooruTag self) ts of
                  Inl e \<Rightarrow> (Inl (Builtin e), w\<lparr>calls := Suc (calls w)\<rparr>)
                | Inr r \<Rightarrow> (Inr (Tags r), w\<lparr>calls := Suc (calls w)\<rparr>))
           | Inr t \<Rightarrow>
               (case GelbooruTag self t of
                  Inl e \<Rightarrow> (Inl (Builtin e), w\<lparr>calls := Suc (calls w)\<rparr>)
                | Inr r \<Rightarrow> (Inr (Tag r), w\<lparr>calls := Suc (calls w)\<rparr>))))"
  using assms unfolding tag_list_def
  by (simp add: request_result)

lemma get_comments_parsed:
  assumes "server env (calls w) (get_comments_endpoint self post w) = (st, body)"
    and "st = 200 \<or> st = 201"
    and "xml_parse env body = Some payload"
  shows "get_comments env self post w =
     (case subscript (XDict payload) ''comments'' of
        Inl e \<Rightarrow> (Inl (Builtin e), w\<lparr>calls := Suc (calls w)\<rparr>)
      | Inr comments \<Rightarrow>
          (case contains ''comment'' comments of
             Inl e \<Rightarrow> (Inl (Builtin e), w\<lparr>calls := Suc (calls w)\<rparr>)
           | Inr present \<Rightarrow>
               if \<not> present then (Inr [], w\<lparr>calls := Suc (calls w)\<rparr>)
               else
                 (case subscript comments ''comment'' of
                    Inl e \<Rightarrow> (Inl (Builtin e), w\<lparr>calls := Suc (calls w)\<rparr>)
                  | Inr c \<Rightarrow>
                      for_each (new_comment self (case post of PostId i \<Rightarrow> None | PostImage r \<Rightarrow> Some r))
                        (as_list c) (w\<lparr>calls := Suc (calls w)\<rparr>))))"
proof -
  have c: "(case r of Inl e \<Rightarrow> (Inl (Builtin e), w1) | Inr (XList cs) \<Rightarrow> for_each f cs w1
              | Inr c \<Rightarrow> for_each f [c] w1)
         = (case r of Inl e \<Rightarrow> (Inl (Builtin e), w1) | Inr c \<Rightarrow> for_each f (as_list c) w1)"
    for r :: "builtin_error + xval" and w1 and f :: "xval \<Rightarrow> nat io"
    by (cases r) (simp_all add: as_list_def split: xval.splits)
  show ?thesis
    using assms unfolding get_comments_def Let_def c
    by (simp add: request_result)
qed

text \<open>
  C10, as stated, fails when the \<open>posts\<close> element is empty: it parses to \<open>None\<close>, the
  test \<open>'post' not in payload["posts"]\<close> raises \<open>TypeError\<close>, and no sequence is returned.
\<close>

theorem empty_posts_element_raises:
  "search_posts (scripted [(200, ''<posts/>'')] [(''<posts/>'', [(''posts'', XNone)])])
      anonymous None None 1 0 fresh
    = (Inl (Builtin TypeError), fresh\<lparr>calls := 1\<rparr>)"
  by (simp add: search_posts_def request_def fetch_def scripted_def fresh_def)

text \<open>
  C10, amended. A \<open>search_posts\<close> call with \<open>limit = 1\<close> whose parsed response has no
  \<open>posts\<close> key, or whose \<open>posts\<close> value is a mapping without a \<open>post\<close> key or a text in
  which \<open>post\<close> does not occur, returns the empty sequence: the checks for missing
  results come before the limit is looked at.
\<close>

theorem search_posts_no_results_limit_one:
  assumes "server env (calls w) (search_posts_endpoint (unicode env) self tags exclude_tags 1 page) = (st, body)"
    and "st = 200 \<or> st = 201"
    and "xml_parse env body = Some payload"
    and "map_of payload ''posts'' = None
         \<or> (\<exists>d. map_of payload ''posts'' = Some (XDict d) \<and> map_of d ''post'' = None)
         \<or> (\<exists>t. map_of payload ''posts'' = Some (XStr t) \<and> \<not> substring ''post'' t)"
  shows "search_posts env self tags exclude_tags 1 page w = (Inr (Images []), w\<lparr>calls := calls w + 1\<rparr>)"
  using assms(4) unfolding search_posts_parsed [OF assms(1-3)]
  by auto

theorem search_posts_no_results_limit_one_witness:
  "search_posts (scripted [(200, ''<error/>'')] [(''<error/>'', [(''error'', XNone)])])
      anonymous (Some [codepoints ''cat'']) None 1 0 fresh
    = (Inr (Images []), fresh\<lparr>calls := 1\<rparr>)"
  using search_posts_no_results_limit_one [where env = "scripted [(200, ''<error/>'')] [(''<error/>'', [(''error'', XNone)])]"
      and w = fresh and self = anonymous and tags = "Some [codepoints ''cat'']" and exclude_tags = None and page = 0
      and st = 200 and body = "''<error/>''" and payload = "[(''error'', XNone)]"]
  by (simp add: scripted_def fresh_def)

text \<open>
  C2. A response whose parsed mapping lacks the outer key: \<open>search_posts\<close> and
  \<open>tag_list\<close> return the empty sequence and \<open>get_post\<close> raises the not-found
  exception, but \<open>get_comments\<close> indexes \<open>payload['comments']\<close> without the check its
  siblings make, and \<open>KeyError\<close> escapes.
\<close>

theorem outer_key_absent_get_comments_raises:
  "search_posts (scripted [(200, ''<error/>'')] [(''<error/>'', [(''error'', XNone)])])
      anonymous None None 100 0 fresh
    = (Inr (Images []), fresh\<lparr>calls := 1\<rparr>)
   \<and> tag_list (scripted [(200, ''<error/>'')] [(''<error/>'', [(''error'', XNone)])])
      anonymous NoName None 100 ''count'' ''DESC'' fresh
    = (Inr (Tags []), fresh\<lparr>calls := 1\<rparr>)
   \<and> get_post (scripted [(200, ''<error/>'')] [(''<error/>'', [(''error'', XNone)])])
      anonymous (AInt 7) fresh
    = (Inl (NotFound (AInt 7)), fresh\<lparr>calls := 1\<rparr>)
   \<and> get_comments (scripted [(200, ''<error/>'')] [(''<error/>'', [(''error'', XNone)])])
      anonymous (PostId 7) fresh
    = (Inl (Builtin (KeyError ''comments'')), fresh\<lparr>calls := 1\<rparr>)"
  by (simp add: search_posts_def tag_list_def get_post_def get_comments_def
        request_def fetch_def scripted_def fresh_def)

text \<open>
  C3. A response with the outer key and without the inner one: \<open>search_posts\<close> and
  \<open>get_comments\<close> return the empty sequence, but \<open>get_post\<close> and \<open>tag_list\<close> index
  the inner key without the check, and \<open>KeyError\<close> escapes instead of the not-found
  exception or the empty sequence.
\<close>

theorem inner_key_absent_get_post_tag_list_raise:
  "search_posts (scripted [(200, ''<posts count=\"0\"/>'')]
               [(''<posts count=\"0\"/>'', [(''posts'', XDict [(''@count'', XStr ''0'')])])])
      anonymous None None 100 0 fresh
    = (Inr (Images []), fresh\<lparr>calls := 1\<rparr>)
   \<and> get_comments (scripted [(200, ''<comments type=\"array\"/>'')]
               [(''<comments type=\"array\"/>'', [(''comments'', XDict [(''@type'', XStr ''array'')])])])
      anonymous (PostId 7) fresh
    = (Inr [], fresh\<lparr>calls := 1\<rparr>)
   \<and> get_post (scripted [(200, ''<posts count=\"0\"/>'')]
               [(''<posts count=\"0\"/>'', [(''posts'', XDict [(''@count'', XStr ''0'')])])])
      anonymous (AInt 7) fresh
    = (Inl (Builtin (KeyError ''post'')), fresh\<lparr>calls := 1\<rparr>)
   \<and> tag_list (scripted [(200, ''<tags type=\"array\"/>'')]
               [(''<tags type=\"array\"/>'', [(''tags'', XDict [(''@type'', XStr ''array'')])])])
      anonymous NoName None 100 ''count'' ''DESC'' fresh
    = (Inl (Builtin (KeyError ''tag'')), fresh\<lparr>calls := 1\<rparr>)"
  by (simp add: search_posts_def get_comments_def get_post_def tag_list_def
        request_def fetch_def scripted_def fresh_def)

section \<open>Single results\<close>

lemma GelbooruImage_post7: "GelbooruImage (scripted replies docs) anonymous post7 = Inr image7"
  by (simp add: GelbooruImage_def post7_def image7_def scripted_def bindE_def get_default_def
        int_of_str_def int_space_def max_str_digits_def unsigned_def isdigit_def digit_value_def
        py_str_def)

text \<open>
  C1. When the inner key of a parsed response maps to a single mapping, each normalising
  operation applies its record constructor once, to that whole mapping, and the outcome of
  the operation is the outcome of that one construction: \<open>search_posts\<close> stores one new
  Image and returns it (alone in a sequence, or bare when the limit is 1), \<open>tag_list\<close>
  returns the one Tag, \<open>get_comments\<close> stores one new Comment and returns the sequence
  holding it. An exception of the constructor escapes and nothing is stored.
\<close>

theorem single_mapping_one_record:
  "(server env (calls w) (search_posts_endpoint (unicode env) self tags exclude_tags limit page) = (st, body)
      \<and> (st = 200 \<or> st = 201) \<and> xml_parse env body = Some payload
      \<and> map_of payload ''posts'' = Some (XDict d) \<and> map_of d ''post'' = Some (XDict m)
    \<longrightarrow> search_posts env self tags exclude_tags limit page w =
          (case GelbooruImage env self (XDict m) of
             Inl e \<Rightarrow> (Inl (Builtin e), w\<lparr>calls := calls w + 1\<rparr>)
           | Inr obj \<Rightarrow>
               (Inr (if limit = 1 then Image (length (image_heap w))
                     else Images [length (image_heap w)]),
                w\<lparr>calls := calls w + 1, image_heap := image_heap w @ [obj]\<rparr>)))
   \<and> (server env (calls w) (tag_list_endpoint (unicode env) self name name_pattern limit sort_by sort_order)
         = (st, body)
      \<and> (st = 200 \<or> st = 201) \<and> xml_parse env body = Some payload
      \<and> map_of payload ''tags'' = Some (XDict d) \<and> map_of d ''tag'' = Some (XDict m)
    \<longrightarrow> tag_list env self name name_pattern limit sort_by sort_order w =
          (case GelbooruTag self (XDict m) of
             Inl e \<Rightarrow> (Inl (Builtin e), w\<lparr>calls := calls w + 1\<rparr>)
           | Inr t \<Rightarrow> (Inr (Tag t), w\<lparr>calls := calls w + 1\<rparr>)))
   \<and> (server env (calls w) (get_comments_endpoint self post w) = (st, body)
      \<and> (st = 200 \<or> st = 201) \<and> xml_parse env body = Some payload
      \<and> map_of payload ''comments'' = Some (XDict d) \<and> map_of d ''comment'' = Some (XDict m)
    \<longrightarrow> get_comments env self post w =
          (case GelbooruComment self (case post of PostId i \<Rightarrow> None | PostImage r \<Rightarrow> Some r)
                  (XDict m) of
             Inl e \<Rightarrow> (Inl (Builtin e), w\<lparr>calls := calls w + 1\<rparr>)
           | Inr obj \<Rightarrow>
               (Inr [length (comment_heap w)],
                w\<lparr>calls := calls w + 1, comment_heap := comment_heap w @ [obj]\<rparr>)))"
proof -
  have sp: "search_posts env self tags exclude_tags limit page w =
          (case GelbooruImage env self (XDict m) of
             Inl e \<Rightarrow> (Inl (Builtin e), w\<lparr>calls := calls w + 1\<rparr>)
           | Inr obj \<Rightarrow>
               (Inr (if limit = 1 then Image (length (image_heap w))
                     else Images [length (image_heap w)]),
                w\<lparr>calls := calls w + 1, image_heap := image_heap w @ [obj]\<rparr>))"
    if "server env (calls w) (search_posts_endpoint (unicode env) self tags exclude_tags limit page) = (st, body)"
      and "st = 200 \<or> st = 201" and "xml_parse env body = Some payload"
      and "map_of payload ''posts'' = Some (XDict d)" and "map_of d ''post'' = Some (XDict m)"
    unfolding search_posts_parsed [OF that(1-3)] using that(4,5)
    by (simp add: as_list_def new_image_def split: sum.splits)
  have tl: "tag_list env self name name_pattern limit sort_by sort_order w =
          (case GelbooruTag self (XDict m) of
             Inl e \<Rightarrow> (Inl (Builtin e), w\<lparr>calls := calls w + 1\<rparr>)
           | Inr t \<Rightarrow> (Inr (Tag t), w\<lparr>calls := calls w + 1\<rparr>))"
    if "server env (calls w) (tag_list_endpoint (unicode env) self name name_pattern limit sort_by sort_order)
         = (st, body)"
      and "st = 200 \<or> st = 201" and "xml_parse env body = Some payload"
      and "map_of payload ''tags'' = Some (XDict d)" and "map_of d ''tag'' = Some (XDict m)"
    unfolding tag_list_parsed [OF that(1-3)] using that(4,5)
    by (simp split: sum.splits)
  have gc: "get_comments env self post w =
          (case GelbooruComment self (case post of PostId i \<Rightarrow> None | PostImage r \<Rightarrow> Some r)
                  (XDict m) of
             Inl e \<Rightarrow> (Inl (Builtin e), w\<lparr>calls := calls w + 1\<rparr>)
           | Inr obj \<Rightarrow>
               (Inr [length (comment_heap w)],
                w\<lparr>calls := calls w + 1, comment_heap := comment_heap w @ [obj]\<rparr>))"
    if "server env (calls w) (get_comments_endpoint self post w) = (st, body)"
      and "st = 200 \<or> st = 201" and "xml_parse env body = Some payload"
      and "map_of payload ''comments'' = Some (XDict d)" and "map_of d ''comment'' = Some (XDict m)"
    unfolding get_comments_parsed [OF that(1-3)] using that(4,5)
    by (simp add: as_list_def new_comment_def split: sum.splits)
  from sp tl gc show ?thesis by blast
qed


theorem single_mapping_one_record_witness:
  "search_posts (scripted [(200, ''<posts/>'')] [(''<posts/>'', [(''posts'', XDict [(''post'', post7)])])])
      anonymous None None 100 0 fresh
    = (Inr (Images [0]), fresh\<lparr>calls := 1, image_heap := [image7]\<rparr>)
   \<and> tag_list (scripted [(200, ''<tags/>'')]
         [(''<tags/>'', [(''tags'', XDict [(''tag'',
             XDict [(''id'', XStr ''3''), (''name'', XStr ''cat''), (''@count'', XStr ''12'')])])])])
      anonymous (Name (codepoints ''cat'')) None 100 ''count'' ''DESC'' fresh
    = (Inr (Tag \<lparr> tag_gelbooru = anonymous, tag_id = 3, tag_name = XStr ''cat'', tag_count = 12,
                    tag_ambiguous = XNone \<rparr>),
       fresh\<lparr>calls := 1\<rparr>)
   \<and> get_comments (scripted [(200, ''<comments/>'')]
         [(''<comments/>'', [(''comments'', XDict [(''comment'',
             XDict [(''id'', XStr ''5''), (''post_id'', XStr ''7''), (''body'', XStr ''nice'')])])])])
      anonymous (PostId 7) fresh
    = (Inr [0],
       fresh\<lparr>calls := 1,
             comment_heap := [\<lparr> com_gelbooru = anonymous, com_post = None, com_id = 5,
                               com_post_id = XStr ''7'', com_creator = XNone, com_creator_id = XNone,
                               com_created_at = XNone, com_body = XStr ''nice'' \<rparr>]\<rparr>)"
proof -
  have i: "int_of_str ''3'' = Some 3" "int_of_str ''12'' = Some 12" "int_of_str ''5'' = Some 5"
    by (simp_all add: int_of_str_def int_space_def max_str_digits_def unsigned_def isdigit_def digit_value_def)
  have a: "search_posts (scripted [(200, ''<posts/>'')] [(''<posts/>'', [(''posts'', XDict [(''post'', post7)])])])
      anonymous None None 100 0 fresh
    = (Inr (Images [0]), fresh\<lparr>calls := 1, image_heap := [image7]\<rparr>)"
    using single_mapping_one_record [where env = "scripted [(200, ''<posts/>'')] [(''<posts/>'', [(''posts'', XDict [(''post'', post7)])])]"
        and w = fresh and self = anonymous and tags = None and exclude_tags = None and limit = 100
        and page = 0 and st = 200 and body = "''<posts/>''"
        and payload = "[(''posts'', XDict [(''post'', post7)])]" and d = "[(''post'', post7)]"
        and m = "[(''id'', XStr ''7''), (''file_url'', XStr ''https://img.example/a.png''),
                  (''height'', XStr ''600''), (''width'', XStr ''800''),
                  (''has_comments'', XStr ''true''), (''tags'', XStr ''cat dog'')]"]
      GelbooruImage_post7 [of "[(200, ''<posts/>'')]" "[(''<posts/>'', [(''posts'', XDict [(''post'', post7)])])]"]
    by (simp add: scripted_def fresh_def post7_def)
  have b: "tag_list (scripted [(200, ''<tags/>'')]
         [(''<tags/>'', [(''tags'', XDict [(''tag'',
             XDict [(''id'', XStr ''3''), (''name'', XStr ''cat''), (''@count'', XStr ''12'')])])])])
      anonymous (Name (codepoints ''cat'')) None 100 ''count'' ''DESC'' fresh
    = (Inr (Tag \<lparr> tag_gelbooru = anonymous, tag_id = 3, tag_name = XStr ''cat'', tag_count = 12,
                    tag_ambiguous = XNone \<rparr>),
       fresh\<lparr>calls := 1\<rparr>)"
    using single_mapping_one_record [where env = "scripted [(200, ''<tags/>'')]
         [(''<tags/>'', [(''tags'', XDict [(''tag'',
             XDict [(''id'', XStr ''3''), (''name'', XStr ''cat''), (''@count'', XStr ''12'')])])])]"
        and w = fresh and self = anonymous and name = "Name (codepoints ''cat'')" and name_pattern = None
        and limit = 100 and sort_by = "''count''" and sort_order = "''DESC''"
        and st = 200 and body = "''<tags/>''"
        and payload = "[(''tags'', XDict [(''tag'',
             XDict [(''id'', XStr ''3''), (''name'', XStr ''cat''), (''@count'', XStr ''12'')])])]"
        and d = "[(''tag'', XDict [(''id'', XStr ''3''), (''name'', XStr ''cat''), (''@count'', XStr ''12'')])]"
        and m = "[(''id'', XStr ''3''), (''name'', XStr ''cat''), (''@count'', XStr ''12'')]"]
    by (simp add: scripted_def fresh_def GelbooruTag_def bindE_def get_default_def i)
  have c: "get_comments (scripted [(200, ''<comments/>'')]
         [(''<comments/>'', [(''comments'', XDict [(''comment'',
             XDict [(''id'', XStr ''5''), (''post_id'', XStr ''7''), (''body'', XStr ''nice'')])])])])
      anonymous (PostId 7) fresh
    = (Inr [0],
       fresh\<lparr>calls := 1,
             comment_heap := [\<lparr> com_gelbooru = anonymous, com_post = None, com_id = 5,
                               com_post_id = XStr ''7'', com_creator = XNone, com_creator_id = XNone,
                               com_created_at = XNone, com_body = XStr ''nice'' \<rparr>]\<rparr>)"
    using single_mapping_one_record [where env = "scripted [(200, ''<comments/>'')]
         [(''<comments/>'', [(''comments'', XDict [(''comment'',
             XDict [(''id'', XStr ''5''), (''post_id'', XStr ''7''), (''body'', XStr ''nice'')])])])]"
        and w = fresh and self = anonymous and post = "PostId 7"
        and st = 200 and body = "''<comments/>''"
        and payload = "[(''comments'', XDict [(''comment'',
             XDict [(''id'', XStr ''5''), (''post_id'', XStr ''7''), (''body'', XStr ''nice'')])])]"
        and d = "[(''comment'', XDict [(''id'', XStr ''5''), (''post_id'', XStr ''7''), (''body'', XStr ''nice'')])]"
        and m = "[(''id'', XStr ''5''), (''post_id'', XStr ''7''), (''body'', XStr ''nice'')]"]
    by (simp add: scripted_def fresh_def GelbooruComment_def bindE_def get_default_def i)
  from a b c show ?thesis by blast
qed

section \<open>The limit and the shape of the result\<close>

text \<open>
  C5, as stated, fails: with \<open>limit = 1\<close> and a parsed response that holds no post, the
  result is the empty sequence, not an Image.
\<close>

theorem limit_one_empty_result:
  "search_posts (scripted [(200, ''<posts count=\"0\"/>'')]
               [(''<posts count=\"0\"/>'', [(''posts'', XDict [(''@count'', XStr ''0'')])])])
      anonymous (Some [codepoints ''no such tag'']) None 1 0 fresh
    = (Inr (Images []), fresh\<lparr>calls := 1\<rparr>)"
  by (simp add: search_posts_def request_def fetch_def scripted_def fresh_def)

text \<open>
  C5, amended. When the parsed response holds posts and their records are built, giving a
  non-empty sequence, \<open>search_posts\<close> returns the first Image of that sequence, bare, if
  the limit is 1, and the whole sequence for every other limit.
\<close>

theorem limit_selects_result_shape:
  assumes "server env (calls w) (search_posts_endpoint (unicode env) self tags exclude_tags limit page) = (st, body)"
    and "st = 200 \<or> st = 201"
    and "xml_parse env body = Some payload"
    and "map_of payload ''posts'' = Some (XDict d)"
    and "map_of d ''post'' = Some post"
    and "for_each (new_image env self) (as_list post) (w\<lparr>calls := calls w + 1\<rparr>) = (Inr (r # rs), w_end)"
  shows "search_posts env self tags exclude_tags limit page w =
           (Inr (if limit = 1 then Image r else Images (r # rs)), w_end)"
  using assms(4-6) unfolding search_posts_parsed [OF assms(1-3)]
  by simp

theorem limit_selects_result_shape_witness:
  "search_posts (scripted [(200, ''<posts/>'')] [(''<posts/>'', [(''posts'', XDict [(''post'', XList [post7, post7])])])])
      anonymous None None 1 0 fresh
    = (Inr (Image 0), fresh\<lparr>calls := 1, image_heap := [image7, image7]\<rparr>)
   \<and> search_posts (scripted [(200, ''<posts/>'')] [(''<posts/>'', [(''posts'', XDict [(''post'', XList [post7, post7])])])])
      anonymous None None 100 0 fresh
    = (Inr (Images [0, 1]), fresh\<lparr>calls := 1, image_heap := [image7, image7]\<rparr>)"
proof -
  let ?docs = "[(''<posts/>'', [(''posts'', XDict [(''post'', XList [post7, post7])])])]"
  let ?env = "scripted [(200, ''<posts/>'')] ?docs"
  have f: "for_each (new_image ?env anonymous) (as_list (XList [post7, post7])) (fresh\<lparr>calls := calls fresh + 1\<rparr>)
      = (Inr (0 # [1]), fresh\<lparr>calls := 1, image_heap := [image7, image7]\<rparr>)"
    by (simp add: as_list_def new_image_def GelbooruImage_post7 fresh_def)
  have a: "search_posts ?env anonymous None None 1 0 fresh
      = (Inr (Image 0), fresh\<lparr>calls := 1, image_heap := [image7, image7]\<rparr>)"
    using limit_selects_result_shape [where env = ?env and w = fresh and self = anonymous
        and tags = None and exclude_tags = None and limit = 1 and page = 0 and st = 200
        and body = "''<posts/>''" and payload = "[(''posts'', XDict [(''post'', XList [post7, post7])])]"
        and d = "[(''post'', XList [post7, post7])]" and post = "XList [post7, post7]"
        and r = 0 and rs = "[1]" and w_end = "fresh\<lparr>calls := 1, image_heap := [image7, image7]\<rparr>", OF _ _ _ _ _ f]
    by (simp add: scripted_def fresh_def)
  have b: "search_posts ?env anonymous None None 100 0 fresh
      = (Inr (Images [0, 1]), fresh\<lparr>calls := 1, image_heap := [image7, image7]\<rparr>)"
    using limit_selects_result_shape [where env = ?env and w = fresh and self = anonymous
        and tags = None and exclude_tags = None and limit = 100 and page = 0 and st = 200
        and body = "''<posts/>''" and payload = "[(''posts'', XDict [(''post'', XList [post7, post7])])]"
        and d = "[(''post'', XList [post7, post7])]" and post = "XList [post7, post7]"
        and r = 0 and rs = "[1]" and w_end = "fresh\<lparr>calls := 1, image_heap := [image7, image7]\<rparr>", OF _ _ _ _ _ f]
    by (simp add: scripted_def fresh_def)
  from a b show ?thesis by blast
qed

section \<open>The requests of \<open>random_post\<close>\<close>

lemma new_image_calls: "new_image env self p w = (r, w') \<Longrightarrow> calls w' = calls w"
  by (auto simp: new_image_def split: sum.splits)

lemma for_each_calls:
  assumes f: "\<And>x w r w'. f x w = (r, w') \<Longrightarrow> calls w' = calls w"
  shows "for_each f xs w = (r, w') \<Longrightarrow> calls w' = calls w"
proof (induction xs arbitrary: w r w')
  case Nil
  then show ?case by simp
next
  case (Cons x xs)
  obtain r1 w1 where fx: "f x w = (r1, w1)" by (cases "f x w")
  then have c1: "calls w1 = calls w" by (rule f)
  show ?case
  proof (cases r1)
    case (Inl e)
    with fx Cons.prems c1 show ?thesis by simp
  next
    case (Inr y)
    obtain r2 w2 where rest: "for_each f xs w1 = (r2, w2)" by (cases "for_each f xs w1")
    then have c2: "calls w2 = calls w1" by (rule Cons.IH)
    from fx Inr rest Cons.prems have "w' = w2" by (cases r2) simp_all
    with c1 c2 show ?thesis by simp
  qed
qed

lemma images_calls:
  "for_each (new_image env self) ps w = (r, w') \<Longrightarrow> calls w' = calls w"
  by (rule for_each_calls [where f = "new_image env self"]) (rule new_image_calls)

lemma search_posts_calls:
  assumes "search_posts env self tags exclude_tags limit page w = (r, w')"
  shows "calls w' = calls w + 1"
proof -
  obtain st body where srv:
    "server env (calls w) (search_posts_endpoint (unicode env) self tags exclude_tags limit page) = (st, body)"
    by (cases "server env (calls w) (search_posts_endpoint (unicode env) self tags exclude_tags limit page)")
  show ?thesis
  proof (cases "st = 200 \<or> st = 201")
    case False
    with srv assms show ?thesis by (auto simp: search_posts_def request_result)
  next
    case ok: True
    show ?thesis
    proof (cases "xml_parse env body")
      case None
      with srv ok assms show ?thesis by (auto simp: search_posts_def request_result)
    next
      case (Some payload)
      show ?thesis
        using assms unfolding search_posts_parsed [OF srv ok Some]
        by (auto split: option.splits sum.splits prod.splits list.splits if_splits
                 dest: images_calls)
    qed
  qed
qed

lemma scripted_sel:
  "unicode (scripted replies docs) = unicode_excerpt"
  "server (scripted replies docs) n u = (if n < length replies then replies ! n else (500, []))"
  "xml_parse (scripted replies docs) = map_of docs"
  "entropy (scripted replies docs) n = 0"
  by (simp_all add: scripted_def)

lemma as_list_post7: "as_list post7 = [post7]"
  by (simp add: as_list_def post7_def)

text \<open>
  C6. When the count query of \<open>random_post\<close> is answered and parsed and its count is
  zero, the operation returns \<open>None\<close> after that single request. When the count is
  positive, it draws an offset between 0 and the smaller of the count and 20000, hands over
  to \<open>search_posts\<close> with limit 1 and that offset as page, and returns what the search
  returns; two requests have then been made, whatever the outcome of the search.
\<close>

theorem random_post_requests:
  "(server env (calls w) (random_post_endpoint (unicode env) self tags exclude_tags) = (st, body)
      \<and> (st = 200 \<or> st = 201) \<and> xml_parse env body = Some payload
      \<and> post_count payload = Inr 0
    \<longrightarrow> random_post env self tags exclude_tags w = (Inr None, w\<lparr>calls := calls w + 1\<rparr>))
   \<and> (server env (calls w) (random_post_endpoint (unicode env) self tags exclude_tags) = (st, body)
      \<and> (st = 200 \<or> st = 201) \<and> xml_parse env body = Some payload
      \<and> post_count payload = Inr count \<and> 0 < count
    \<longrightarrow> 0 \<le> int (entropy env (draws w)) mod (min count 20000 + 1)
        \<and> int (entropy env (draws w)) mod (min count 20000 + 1) \<le> min count 20000
        \<and> random_post env self tags exclude_tags w =
            (case search_posts env self (Some (format_tags (unicode env) tags exclude_tags)) exclude_tags 1
                    (int (entropy env (draws w)) mod (min count 20000 + 1))
                    (w\<lparr>calls := calls w + 1, draws := draws w + 1\<rparr>) of
               (Inl e, w3) \<Rightarrow> (Inl e, w3)
             | (Inr r, w3) \<Rightarrow> (Inr (Some r), w3))
        \<and> calls (snd (random_post env self tags exclude_tags w)) = calls w + 2)"
proof -
  have zero: "random_post env self tags exclude_tags w = (Inr None, w\<lparr>calls := calls w + 1\<rparr>)"
    if "server env (calls w) (random_post_endpoint (unicode env) self tags exclude_tags) = (st, body)"
      and "st = 200 \<or> st = 201" and "xml_parse env body = Some payload"
      and "post_count payload = Inr 0"
    unfolding random_post_parsed [OF that(1-3)] using that(4) by simp
  have pos: "0 \<le> int (entropy env (draws w)) mod (min count 20000 + 1)
        \<and> int (entropy env (draws w)) mod (min count 20000 + 1) \<le> min count 20000
        \<and> random_post env self tags exclude_tags w =
            (case search_posts env self (Some (format_tags (unicode env) tags exclude_tags)) exclude_tags 1
                    (int (entropy env (draws w)) mod (min count 20000 + 1))
                    (w\<lparr>calls := calls w + 1, draws := draws w + 1\<rparr>) of
               (Inl e, w3) \<Rightarrow> (Inl e, w3)
             | (Inr r, w3) \<Rightarrow> (Inr (Some r), w3))
        \<and> calls (snd (random_post env self tags exclude_tags w)) = calls w + 2"
    if srv: "server env (calls w) (random_post_endpoint (unicode env) self tags exclude_tags) = (st, body)"
      and ok: "st = 200 \<or> st = 201" and p: "xml_parse env body = Some payload"
      and c: "post_count payload = Inr count" and gt: "0 < count"
  proof -
    let ?offset = "int (entropy env (draws w)) mod (min count 20000 + 1)"
    let ?w2 = "w\<lparr>calls := Suc (calls w), draws := Suc (draws w)\<rparr>"
    from gt have m: "0 < min count 20000 + 1" by simp
    then have lo: "0 \<le> ?offset" by simp
    from m have "?offset < min count 20000 + 1" by (rule pos_mod_bound)
    then have hi: "?offset \<le> min count 20000" by simp
    from gt have r: "randint env 0 (min count 20000) (w\<lparr>calls := Suc (calls w)\<rparr>) = (Inr ?offset, ?w2)"
      by (simp add: randint_result)
    obtain res w3 where sp:
      "search_posts env self (Some (format_tags (unicode env) tags exclude_tags)) exclude_tags 1 ?offset ?w2 = (res, w3)"
      by (cases "search_posts env self (Some (format_tags (unicode env) tags exclude_tags)) exclude_tags 1 ?offset ?w2")
    then have c3: "calls w3 = calls w + 2" by (auto dest: search_posts_calls)
    from gt have nz: "count \<noteq> 0" by simp
    have eq: "random_post env self tags exclude_tags w =
            (case search_posts env self (Some (format_tags (unicode env) tags exclude_tags)) exclude_tags 1 ?offset ?w2 of
               (Inl e, w3) \<Rightarrow> (Inl e, w3)
             | (Inr r, w3) \<Rightarrow> (Inr (Some r), w3))"
      unfolding random_post_parsed [OF srv ok p] by (simp add: c nz r)
    have "calls (snd (random_post env self tags exclude_tags w)) = calls w + 2"
      unfolding eq sp using c3 by (cases res) simp_all
    with lo hi eq show ?thesis by simp
  qed
  from zero pos show ?thesis by blast
qed


theorem random_post_requests_witness:
  "random_post (scripted [(200, ''<posts count=\"0\"/>'')]
               [(''<posts count=\"0\"/>'', [(''posts'', XDict [(''@count'', XStr ''0'')])])])
      anonymous (Some [codepoints ''cat'']) None fresh
    = (Inr None, fresh\<lparr>calls := 1\<rparr>)
   \<and> random_post (scripted [(200, ''<posts count=\"3\"/>''), (200, ''<posts count=\"3\"/>'')]
               [(''<posts count=\"3\"/>'', [(''posts'', XDict [(''@count'', XStr ''3''), (''post'', post7)])])])
      anonymous (Some [codepoints ''cat'']) None fresh
    = (Inr (Some (Image 0)), fresh\<lparr>calls := 2, draws := 1, image_heap := [image7]\<rparr>)"
proof -
  let ?e0 = "scripted [(200, ''<posts count=\"0\"/>'')]
               [(''<posts count=\"0\"/>'', [(''posts'', XDict [(''@count'', XStr ''0'')])])]"
  let ?docs = "[(''<posts count=\"3\"/>'', [(''posts'', XDict [(''@count'', XStr ''3''), (''post'', post7)])])]"
  let ?e3 = "scripted [(200, ''<posts count=\"3\"/>''), (200, ''<posts count=\"3\"/>'')] ?docs"
  have i: "int_of_str ''0'' = Some 0" "int_of_str ''3'' = Some 3"
    by (simp_all add: int_of_str_def int_space_def max_str_digits_def unsigned_def isdigit_def digit_value_def)
  have a: "random_post ?e0 anonymous (Some [codepoints ''cat'']) None fresh = (Inr None, fresh\<lparr>calls := 1\<rparr>)"
    using random_post_requests [where env = ?e0 and w = fresh and self = anonymous
        and tags = "Some [codepoints ''cat'']" and exclude_tags = None and st = 200
        and body = "''<posts count=\"0\"/>''"
        and payload = "[(''posts'', XDict [(''@count'', XStr ''0'')])]" and count = 1]
    by (simp add: scripted_def fresh_def post_count_def bindE_def i)
  have s: "search_posts ?e3 anonymous (Some (format_tags unicode_excerpt (Some [codepoints ''cat'']) None)) None 1 0
             (fresh\<lparr>calls := 1, draws := 1\<rparr>)
      = (Inr (Image 0), fresh\<lparr>calls := 2, draws := 1, image_heap := [image7]\<rparr>)"
    unfolding search_posts_def as_list_case
    by (simp add: request_def fetch_def scripted_sel fresh_def as_list_post7
          new_image_def GelbooruImage_post7)
  have b: "random_post ?e3 anonymous (Some [codepoints ''cat'']) None fresh
      = (Inr (Some (Image 0)), fresh\<lparr>calls := 2, draws := 1, image_heap := [image7]\<rparr>)"
    using random_post_requests [where env = ?e3 and w = fresh and self = anonymous
        and tags = "Some [codepoints ''cat'']" and exclude_tags = None and st = 200
        and body = "''<posts count=\"3\"/>''"
        and payload = "[(''posts'', XDict [(''@count'', XStr ''3''), (''post'', post7)])]" and count = 3]
      s
    by (simp add: scripted_def fresh_def post_count_def bindE_def i)
  from a b show ?thesis by blast
qed

section \<open>Lazy references\<close>

lemma new_comment_image_heap:
  "new_comment self post p w = (r, w') \<Longrightarrow> image_heap w' = image_heap w"
  by (auto simp: new_comment_def split: sum.splits)

lemma for_each_image_heap:
  assumes f: "\<And>x w r w'. f x w = (r, w') \<Longrightarrow> image_heap w' = image_heap w"
  shows "for_each f xs w = (r, w') \<Longrightarrow> image_heap w' = image_heap w"
proof (induction xs arbitrary: w r w')
  case Nil
  then show ?case by simp
next
  case (Cons x xs)
  obtain r1 w1 where fx: "f x w = (r1, w1)" by (cases "f x w")
  then have c1: "image_heap w1 = image_heap w" by (rule f)
  show ?case
  proof (cases r1)
    case (Inl e)
    with fx Cons.prems c1 show ?thesis by simp
  next
    case (Inr y)
    obtain r2 w2 where rest: "for_each f xs w1 = (r2, w2)" by (cases "for_each f xs w1")
    then have c2: "image_heap w2 = image_heap w1" by (rule Cons.IH)
    from fx Inr rest Cons.prems have "w' = w2" by (cases r2) simp_all
    with c1 c2 show ?thesis by simp
  qed
qed

lemma get_comments_image_heap:
  assumes "get_comments env self post w = (r, w')"
  shows "image_heap w' = image_heap w"
proof -
  obtain st body where srv: "server env (calls w) (get_comments_endpoint self post w) = (st, body)"
    by (cases "server env (calls w) (get_comments_endpoint self post w)")
  show ?thesis
  proof (cases "st = 200 \<or> st = 201")
    case False
    with srv assms show ?thesis by (auto simp: get_comments_def request_result)
  next
    case ok: True
    show ?thesis
    proof (cases "xml_parse env body")
      case None
      with srv ok assms show ?thesis by (auto simp: get_comments_def request_result)
    next
      case (Some payload)
      have f: "image_heap w2 = image_heap w"
        if "for_each (new_comment self p) cs (w\<lparr>calls := Suc (calls w)\<rparr>) = (r2, w2)" for p cs r2 w2
        using for_each_image_heap [where f = "new_comment self p", OF new_comment_image_heap that]
        by simp
      show ?thesis
        using assms unfolding get_comments_parsed [OF srv ok Some]
        by (auto split: sum.splits if_splits dest: f)
    qed
  qed
qed

lemma get_post_comment_heap:
  assumes "get_post env self post_id w = (r, w')"
  shows "comment_heap w' = comment_heap w"
proof -
  obtain st body where srv: "server env (calls w) (get_post_endpoint self post_id) = (st, body)"
    by (cases "server env (calls w) (get_post_endpoint self post_id)")
  show ?thesis
  proof (cases "st = 200 \<or> st = 201")
    case False
    with srv assms show ?thesis by (auto simp: get_post_def request_result)
  next
    case ok: True
    show ?thesis
    proof (cases "xml_parse env body")
      case None
      with srv ok assms show ?thesis by (auto simp: get_post_def request_result)
    next
      case (Some payload)
      show ?thesis
        using assms unfolding get_post_parsed [OF srv ok Some]
        by (auto simp: new_image_def split: option.splits sum.splits)
    qed
  qed
qed

lemma GelbooruComment_comment5: "GelbooruComment anonymous post comment5 = Inr (comment5_obj post)"
  by (simp add: GelbooruComment_def comment5_def comment5_obj_def bindE_def get_default_def
        int_of_str_def int_space_def max_str_digits_def unsigned_def isdigit_def digit_value_def)

lemma as_list_comment5: "as_list comment5 = [comment5]"
  by (simp add: as_list_def comment5_def)

text \<open>
  C7. The comment sequence of an Image is to be fetched once at most, also when it is
  empty. The accessor looks for a cached sequence by testing the list for truth, the empty
  list is false, and so an Image whose fetch returned no comment is fetched again by every
  call. Here the image is flagged as having comments, the server reports none, and the
  second call makes the second request.
\<close>

theorem empty_comments_fetched_again:
  "GelbooruImage_get_comments
      (scripted [(200, ''<comments type=\"array\"/>''), (200, ''<comments type=\"array\"/>'')]
         [(''<comments type=\"array\"/>'', [(''comments'', XDict [(''@type'', XStr ''array'')])])])
      0 (fresh\<lparr>image_heap := [image7]\<rparr>)
     = (Inr [], fresh\<lparr>calls := 1, image_heap := [image7]\<rparr>)
   \<and> GelbooruImage_get_comments
      (scripted [(200, ''<comments type=\"array\"/>''), (200, ''<comments type=\"array\"/>'')]
         [(''<comments type=\"array\"/>'', [(''comments'', XDict [(''@type'', XStr ''array'')])])])
      0 (fresh\<lparr>calls := 1, image_heap := [image7]\<rparr>)
     = (Inr [], fresh\<lparr>calls := 2, image_heap := [image7]\<rparr>)"
  by (simp add: GelbooruImage_get_comments_def get_comments_def request_def fetch_def
        scripted_sel fresh_def image7_def)

text \<open>
  What the two accessors do keep. Once the comment accessor of a stored Image has returned
  a non-empty sequence, the next call returns the same sequence and leaves the world as it
  is, so no request is made, and so for every later call. A Comment whose backreference is
  set returns it without a request; a stored Comment whose post has been fetched once
  returns the same Image on the next call, again with the world unchanged.
\<close>

theorem lazy_references_cached:
  "(r < length (image_heap w) \<and> GelbooruImage_get_comments env r w = (Inr cs, w1) \<and> cs \<noteq> []
      \<longrightarrow> GelbooruImage_get_comments env r w1 = (Inr cs, w1))
   \<and> (com_post (comment_heap w ! c) = Some r \<longrightarrow> GelbooruComment_get_post env c w = (Inr r, w))
   \<and> (c < length (comment_heap w) \<and> GelbooruComment_get_post env c w = (Inr r, w1)
      \<longrightarrow> GelbooruComment_get_post env c w1 = (Inr r, w1))"
proof -
  have img: "GelbooruImage_get_comments env r w1 = (Inr cs, w1)"
    if r: "r < length (image_heap w)" and g: "GelbooruImage_get_comments env r w = (Inr cs, w1)"
      and ne: "cs \<noteq> []"
  proof -
    from g ne have t: "truthy (img_has_comments (image_heap w ! r))"
      by (auto simp: GelbooruImage_get_comments_def Let_def split: if_splits)
    show ?thesis
    proof (cases "img_comments (image_heap w ! r) \<noteq> []")
      case True
      with g t have "w1 = w" and "cs = img_comments (image_heap w ! r)"
        by (auto simp: GelbooruImage_get_comments_def Let_def)
      with t True show ?thesis by (simp add: GelbooruImage_get_comments_def Let_def)
    next
      case False
      with g t obtain w2 where
        f: "get_comments env (img_gelbooru (image_heap w ! r)) (PostImage r) w = (Inr cs, w2)"
        and w1: "w1 = w2\<lparr>image_heap := (image_heap w2)[r := (image_heap w2 ! r)\<lparr>img_comments := cs\<rparr>]\<rparr>"
        by (auto simp: GelbooruImage_get_comments_def Let_def split: prod.splits sum.splits)
      from f have h: "image_heap w2 = image_heap w" by (rule get_comments_image_heap)
      from w1 h r have "image_heap w1 ! r = (image_heap w ! r)\<lparr>img_comments := cs\<rparr>"
        by simp
      with t ne show ?thesis by (simp add: GelbooruImage_get_comments_def Let_def)
    qed
  qed
  have pre: "GelbooruComment_get_post env c w = (Inr r, w)"
    if "com_post (comment_heap w ! c) = Some r"
    using that by (simp add: GelbooruComment_get_post_def Let_def)
  have com: "GelbooruComment_get_post env c w1 = (Inr r, w1)"
    if c: "c < length (comment_heap w)" and g: "GelbooruComment_get_post env c w = (Inr r, w1)"
  proof (cases "com_post (comment_heap w ! c)")
    case (Some r')
    with g have "w1 = w" and "r' = r" by (auto simp: GelbooruComment_get_post_def Let_def)
    with Some show ?thesis by (simp add: GelbooruComment_get_post_def Let_def)
  next
    case None
    with g obtain w2 where
      f: "get_post env (com_gelbooru (comment_heap w ! c)) (AVal (com_post_id (comment_heap w ! c))) w
            = (Inr r, w2)"
      and w1: "w1 = w2\<lparr>comment_heap := (comment_heap w2)[c := (comment_heap w2 ! c)\<lparr>com_post := Some r\<rparr>]\<rparr>"
      by (auto simp: GelbooruComment_get_post_def Let_def split: prod.splits sum.splits)
    from f have h: "comment_heap w2 = comment_heap w" by (rule get_post_comment_heap)
    from w1 h c have "com_post (comment_heap w1 ! c) = Some r" by simp
    then show ?thesis by (simp add: GelbooruComment_get_post_def Let_def)
  qed
  from img pre com show ?thesis by blast
qed


theorem lazy_references_cached_witness:
  "GelbooruImage_get_comments
      (scripted [(200, ''<comments/>'')] [(''<comments/>'', [(''comments'', XDict [(''comment'', comment5)])])])
      0 (fresh\<lparr>image_heap := [image7]\<rparr>)
     = (Inr [0], fresh\<lparr>calls := 1, image_heap := [image7\<lparr>img_comments := [0]\<rparr>],
                       comment_heap := [comment5_obj (Some 0)]\<rparr>)
   \<and> GelbooruImage_get_comments
      (scripted [(200, ''<comments/>'')] [(''<comments/>'', [(''comments'', XDict [(''comment'', comment5)])])])
      0 (fresh\<lparr>calls := 1, image_heap := [image7\<lparr>img_comments := [0]\<rparr>],
               comment_heap := [comment5_obj (Some 0)]\<rparr>)
     = (Inr [0], fresh\<lparr>calls := 1, image_heap := [image7\<lparr>img_comments := [0]\<rparr>],
                       comment_heap := [comment5_obj (Some 0)]\<rparr>)
   \<and> GelbooruComment_get_post
      (scripted [(200, ''<comments/>'')] [(''<comments/>'', [(''comments'', XDict [(''comment'', comment5)])])])
      0 (fresh\<lparr>calls := 1, image_heap := [image7\<lparr>img_comments := [0]\<rparr>],
               comment_heap := [comment5_obj (Some 0)]\<rparr>)
     = (Inr 0, fresh\<lparr>calls := 1, image_heap := [image7\<lparr>img_comments := [0]\<rparr>],
                     comment_heap := [comment5_obj (Some 0)]\<rparr>)
   \<and> GelbooruComment_get_post
      (scripted [(200, ''<posts/>'')] [(''<posts/>'', [(''posts'', XDict [(''post'', post7)])])])
      0 (fresh\<lparr>comment_heap := [comment5_obj None]\<rparr>)
     = (Inr 0, fresh\<lparr>calls := 1, image_heap := [image7], comment_heap := [comment5_obj (Some 0)]\<rparr>)
   \<and> GelbooruComment_get_post
      (scripted [(200, ''<posts/>'')] [(''<posts/>'', [(''posts'', XDict [(''post'', post7)])])])
      0 (fresh\<lparr>calls := 1, image_heap := [image7], comment_heap := [comment5_obj (Some 0)]\<rparr>)
     = (Inr 0, fresh\<lparr>calls := 1, image_heap := [image7], comment_heap := [comment5_obj (Some 0)]\<rparr>)"
proof -
  let ?ea = "scripted [(200, ''<comments/>'')] [(''<comments/>'', [(''comments'', XDict [(''comment'', comment5)])])]"
  let ?ec = "scripted [(200, ''<posts/>'')] [(''<posts/>'', [(''posts'', XDict [(''post'', post7)])])]"
  let ?wa = "fresh\<lparr>image_heap := [image7]\<rparr>"
  let ?wa1 = "fresh\<lparr>calls := 1, image_heap := [image7\<lparr>img_comments := [0]\<rparr>],
                    comment_heap := [comment5_obj (Some 0)]\<rparr>"
  let ?wc = "fresh\<lparr>comment_heap := [comment5_obj None]\<rparr>"
  let ?wc1 = "fresh\<lparr>calls := 1, image_heap := [image7], comment_heap := [comment5_obj (Some 0)]\<rparr>"
  have t: "truthy (img_has_comments image7)" "img_comments image7 = []" "img_gelbooru image7 = anonymous"
    by (simp_all add: image7_def)
  have gc: "get_comments ?ea anonymous (PostImage 0) ?wa
      = (Inr [0], fresh\<lparr>calls := 1, image_heap := [image7], comment_heap := [comment5_obj (Some 0)]\<rparr>)"
    by (subst get_comments_parsed [where st = 200 and body = "''<comments/>''"
          and payload = "[(''comments'', XDict [(''comment'', comment5)])]"])
       (simp_all add: scripted_sel fresh_def as_list_comment5 new_comment_def GelbooruComment_comment5)
  have a1: "GelbooruImage_get_comments ?ea 0 ?wa = (Inr [0], ?wa1)"
    by (simp add: GelbooruImage_get_comments_def Let_def t gc)
  have p: "com_post (comment5_obj post) = post" "com_gelbooru (comment5_obj post) = anonymous"
    "com_post_id (comment5_obj post) = XStr ''7''" for post
    by (simp_all add: comment5_obj_def)
  have gp: "get_post ?ec anonymous (AVal (XStr ''7'')) ?wc
      = (Inr 0, fresh\<lparr>calls := 1, image_heap := [image7], comment_heap := [comment5_obj None]\<rparr>)"
    by (simp add: get_post_def request_def fetch_def scripted_sel fresh_def new_image_def
          GelbooruImage_post7)
  have c1: "GelbooruComment_get_post ?ec 0 ?wc = (Inr 0, ?wc1)"
    by (simp add: GelbooruComment_get_post_def Let_def p gp) (simp add: fresh_def comment5_obj_def)
  have a2: "GelbooruImage_get_comments ?ea 0 ?wa1 = (Inr [0], ?wa1)"
    using lazy_references_cached [where env = ?ea and r = 0 and w = ?wa and cs = "[0]" and ?w1.0 = ?wa1]
      a1 by (simp add: fresh_def)
  have b: "GelbooruComment_get_post ?ea 0 ?wa1 = (Inr 0, ?wa1)"
    using lazy_references_cached [where env = ?ea and c = 0 and w = ?wa1 and r = 0]
    by (simp add: fresh_def p)
  have c2: "GelbooruComment_get_post ?ec 0 ?wc1 = (Inr 0, ?wc1)"
    using lazy_references_cached [where env = ?ec and c = 0 and w = ?wc and r = 0 and ?w1.0 = ?wc1]
      c1 by (simp add: fresh_def)
  from a1 a2 b c1 c2 show ?thesis by blast
qed

end
